theory Spec2Isabelle
  imports Complex_Main
begin

section \<open>Python values and exceptions\<close>

text \<open>
  The scraper of \<^verbatim>\<open>lab_5_scraper/scraper.py\<close>. An exception is a value of
  \<open>error\<close>; a computation that may raise returns \<open>error + 'a\<close>, with \<open>Inl\<close> the
  exception. The first seven constructors are the exception classes that the module
  declares, the next two are the Python built-ins that its expressions raise, and
  \<open>LibraryError\<close> is whatever a collaborator (\<^verbatim>\<open>open\<close>, \<^verbatim>\<open>json.load\<close>,
  \<^verbatim>\<open>requests.get\<close>, \<^verbatim>\<open>bs4\<close>) raises, tagged with its class name.
\<close>

datatype error =
    IncorrectSeedURLError
  | NumberOfArticlesOutOfRangeError
  | IncorrectNumberOfArticlesError
  | IncorrectHeadersError
  | IncorrectEncodingError
  | IncorrectTimeoutError
  | IncorrectVerifyError
  | KeyError
  | TypeError
  | LibraryError string

text \<open>Sequencing of computations that may raise: the first exception wins.\<close>

definition and_then :: "error + 'a \<Rightarrow> ('a \<Rightarrow> error + 'b) \<Rightarrow> error + 'b" where
  "and_then m f = (case m of Inl e \<Rightarrow> Inl e | Inr v \<Rightarrow> f v)"

text \<open>
  What \<^verbatim>\<open>json.load\<close> returns. A float is a rational or one of the three special
  values that \<^verbatim>\<open>json.load\<close> accepts; an object is the list of its items, looked up
  by key.
\<close>

datatype pyfloat = Finite rat | PosInf | NegInf | NaN

datatype json =
    JNull
  | JBool bool
  | JInt int
  | JFloat pyfloat
  | JStr string
  | JList "json list"
  | JDict "(string \<times> json) list"

text \<open>
  The subscripts the module writes: a string, as in \<^verbatim>\<open>config_data['encoding']\<close>, or
  the pair of a string and a type, as in \<^verbatim>\<open>config_data['headers', dict]\<close>.
\<close>

datatype pytype = TDict | TBool

datatype key = KStr string | KTuple string pytype

text \<open>
  \<^verbatim>\<open>obj[k]\<close>. The keys of a JSON object are strings, so a tuple is never among
  them; a list or a string refuses a subscript that is no integer; the other values
  have no subscript at all.
\<close>

fun getitem :: "json \<Rightarrow> key \<Rightarrow> error + json" where
  "getitem (JDict kvs) (KStr k) =
     (case map_of kvs k of None \<Rightarrow> Inl KeyError | Some v \<Rightarrow> Inr v)"
| "getitem (JDict kvs) (KTuple k t) = Inl KeyError"
| "getitem v k = Inl TypeError"

text \<open>\<^verbatim>\<open>for x in obj\<close>: the elements of a list, the characters of a string, the keys
  of an object; anything else is not iterable.\<close>

fun py_iter :: "json \<Rightarrow> error + json list" where
  "py_iter (JList xs) = Inr xs"
| "py_iter (JStr s) = Inr (map (\<lambda>c. JStr [c]) s)"
| "py_iter (JDict kvs) = Inr (map (\<lambda>kv. JStr (fst kv)) kvs)"
| "py_iter v = Inl TypeError"

text \<open>\<^verbatim>\<open>pat in s\<close> on strings: \<open>pat\<close> occurs in \<open>s\<close> as a contiguous run.\<close>

fun substring :: "string \<Rightarrow> string \<Rightarrow> bool" where
  "substring pat [] = (pat = [])"
| "substring pat (c # cs) = (take (length pat) (c # cs) = pat \<or> substring pat cs)"

text \<open>\<^verbatim>\<open>pat in obj\<close> for a string \<open>pat\<close>: substring of a string, element of a list,
  key of an object; a number, a boolean or \<^verbatim>\<open>None\<close> is no container.\<close>

fun py_in :: "string \<Rightarrow> json \<Rightarrow> error + bool" where
  "py_in pat (JStr s) = Inr (substring pat s)"
| "py_in pat (JList xs) = Inr (JStr pat \<in> set xs)"
| "py_in pat (JDict kvs) = Inr (pat \<in> set (map fst kvs))"
| "py_in pat v = Inl TypeError"

text \<open>Order comparisons of a JSON value with an integer constant. A boolean is the
  integer 0 or 1; every comparison with NaN is false; a value that is no number
  raises.\<close>

fun float_lt :: "pyfloat \<Rightarrow> int \<Rightarrow> bool" where
  "float_lt (Finite q) n = (q < of_int n)"
| "float_lt NegInf n = True"
| "float_lt PosInf n = False"
| "float_lt NaN n = False"

fun float_gt :: "pyfloat \<Rightarrow> int \<Rightarrow> bool" where
  "float_gt (Finite q) n = (of_int n < q)"
| "float_gt PosInf n = True"
| "float_gt NegInf n = False"
| "float_gt NaN n = False"

fun py_lt :: "json \<Rightarrow> int \<Rightarrow> error + bool" where
  "py_lt (JInt i) n = Inr (i < n)"
| "py_lt (JBool b) n = Inr ((if b then 1 else 0) < n)"
| "py_lt (JFloat f) n = Inr (float_lt f n)"
| "py_lt v n = Inl TypeError"

fun py_gt :: "json \<Rightarrow> int \<Rightarrow> error + bool" where
  "py_gt (JInt i) n = Inr (n < i)"
| "py_gt (JBool b) n = Inr (n < (if b then 1 else 0))"
| "py_gt (JFloat f) n = Inr (float_gt f n)"
| "py_gt v n = Inl TypeError"

text \<open>\<^verbatim>\<open>isinstance(v, int)\<close>: \<^verbatim>\<open>bool\<close> is a subclass of \<^verbatim>\<open>int\<close>.\<close>

fun isinstance_int :: "json \<Rightarrow> bool" where
  "isinstance_int (JInt i) = True"
| "isinstance_int (JBool b) = True"
| "isinstance_int v = False"

section \<open>Config\<close>

text \<open>
  Effects are recorded as a list of events, oldest first: a read of a file, or an HTTP
  GET with the arguments \<^verbatim>\<open>make_request\<close> passes to \<^verbatim>\<open>requests.get\<close>.
\<close>

record request =
  url :: string
  headers_arg :: "(string \<times> string) list"
  timeout_arg :: int
  verify_arg :: bool

datatype event = ReadFile string | HttpGet request

text \<open>
  \<^verbatim>\<open>ConfigDTO\<close> comes from \<^verbatim>\<open>core_utils\<close>; the module reads these seven attributes
  of it, with the types its accessors are annotated with. The constructor call
  \<^verbatim>\<open>ConfigDTO(**config_data)\<close> is a parameter \<open>new_dto\<close> of the functions below.
\<close>

record ConfigDTO =
  encoding :: string
  headers :: "(string \<times> string) list"
  headless_mode :: bool
  seed_urls :: "string list"
  timeout :: int
  num_articles :: int
  should_verify_certificate :: bool

text \<open>The attributes of a \<^verbatim>\<open>Config\<close> object: \<^verbatim>\<open>self._encoding\<close> is \<open>self_encoding\<close>,
  and so on, in the spelling of the source.\<close>

record Config =
  path_to_config :: string
  self_encoding :: string
  self_headers :: "(string \<times> string) list"
  self_headless_mode :: bool
  self_seed_urls :: "string list"
  self_timeout :: int
  self_num_articles :: int
  self_should_varify_certificate :: bool

text \<open>
  The loop of lines 88--90: the first URL that does not hold the text
  \<^verbatim>\<open>https?://(www.)?\<close> raises; the test is \<^verbatim>\<open>in\<close>, not a pattern match.
\<close>

fun check_seed_urls :: "json list \<Rightarrow> error + unit" where
  "check_seed_urls [] = Inr ()"
| "check_seed_urls (u # us) =
     and_then (py_in ''https?://(www.)?'' u) (\<lambda>found.
       if \<not> found then Inl IncorrectSeedURLError else check_seed_urls us)"

text \<open>
  \<^verbatim>\<open>Config._validate_config_content\<close>, on the value \<open>config_data\<close> that
  \<^verbatim>\<open>json.load\<close> returned. The \<^verbatim>\<open>or\<close> of lines 92--93 and 97--98 evaluates its
  second operand only when the first is false. Line 102 subscripts \<open>config_data\<close> with
  the tuple \<^verbatim>\<open>('headers', dict)\<close> and passes the result as the only argument of
  \<^verbatim>\<open>isinstance\<close>, which needs two and raises \<^verbatim>\<open>TypeError\<close>: no path leaves line
  102 without an exception, so lines 105--113 are never run.
\<close>

definition check_config_data :: "json \<Rightarrow> error + unit" where
  "check_config_data config_data =
     and_then (getitem config_data (KStr ''seed_urls'')) (\<lambda>seeds.
     and_then (py_iter seeds) (\<lambda>us.
     and_then (check_seed_urls us) (\<lambda>_.
     and_then (getitem config_data (KStr ''total_articles_to_find_and_parse'')) (\<lambda>n.
     and_then (py_lt n 1) (\<lambda>low.
     and_then (if low then Inr True else py_gt n 150) (\<lambda>out_of_range.
     if out_of_range then Inl NumberOfArticlesOutOfRangeError else
     and_then (if \<not> isinstance_int n then Inr True else py_lt n 0) (\<lambda>incorrect.
     if incorrect then Inl IncorrectNumberOfArticlesError else
     and_then (getitem config_data (KTuple ''headers'' TDict)) (\<lambda>h.
     Inl TypeError))))))))"

text \<open>
  The file system is a function \<open>fs\<close> from a path to what \<^verbatim>\<open>open\<close> and
  \<^verbatim>\<open>json.load\<close> give for it: the parsed value, or the exception of either. Each
  function returns the events it caused and its result.
\<close>

definition validate_config_content ::
  "(string \<Rightarrow> error + json) \<Rightarrow> string \<Rightarrow> event list \<times> (error + unit)" where
  "validate_config_content fs path =
     ([ReadFile path], and_then (fs path) check_config_data)"

definition extract_config_content ::
  "(string \<Rightarrow> error + json) \<Rightarrow> (json \<Rightarrow> error + ConfigDTO) \<Rightarrow> string
     \<Rightarrow> event list \<times> (error + ConfigDTO)" where
  "extract_config_content fs new_dto path = ([ReadFile path], and_then (fs path) new_dto)"

text \<open>Lines 58 and 61--67: the attributes, each from the field of the DTO that the
  source names.\<close>

definition store_config :: "string \<Rightarrow> ConfigDTO \<Rightarrow> Config" where
  "store_config path dto =
     \<lparr>path_to_config = path,
      self_encoding = encoding dto,
      self_headers = headers dto,
      self_headless_mode = headless_mode dto,
      self_seed_urls = seed_urls dto,
      self_timeout = timeout dto,
      self_num_articles = num_articles dto,
      self_should_varify_certificate = should_verify_certificate dto\<rparr>"

text \<open>\<^verbatim>\<open>Config.__init__\<close>: validate, then read the file again and store.\<close>

definition Config_init ::
  "(string \<Rightarrow> error + json) \<Rightarrow> (json \<Rightarrow> error + ConfigDTO) \<Rightarrow> string
     \<Rightarrow> event list \<times> (error + Config)" where
  "Config_init fs new_dto path =
     (case validate_config_content fs path of
        (ev1, Inl e) \<Rightarrow> (ev1, Inl e)
      | (ev1, Inr _) \<Rightarrow>
          (case extract_config_content fs new_dto path of
             (ev2, Inl e) \<Rightarrow> (ev1 @ ev2, Inl e)
           | (ev2, Inr dto) \<Rightarrow> (ev1 @ ev2, Inr (store_config path dto))))"

text \<open>The accessors. \<^verbatim>\<open>get_headless_mode\<close> has a docstring and no statement, so it
  returns \<^verbatim>\<open>None\<close>.\<close>

definition get_seed_urls :: "Config \<Rightarrow> string list" where
  "get_seed_urls self = self_seed_urls self"

definition get_num_articles :: "Config \<Rightarrow> int" where
  "get_num_articles self = self_num_articles self"

definition get_headers :: "Config \<Rightarrow> (string \<times> string) list" where
  "get_headers self = self_headers self"

definition get_encoding :: "Config \<Rightarrow> string" where
  "get_encoding self = self_encoding self"

definition get_timeout :: "Config \<Rightarrow> int" where
  "get_timeout self = self_timeout self"

definition get_verify_certificate :: "Config \<Rightarrow> bool" where
  "get_verify_certificate self = self_should_varify_certificate self"

definition get_headless_mode :: "Config \<Rightarrow> bool option" where
  "get_headless_mode self = None"

section \<open>make_request and the Crawler\<close>

text \<open>
  The two collaborators of the crawler are parameters. \<open>requests_get env history req\<close>
  is what \<^verbatim>\<open>requests.get\<close> does for the request \<open>req\<close> after the events
  \<open>history\<close>: it raises, or it returns a response, held here as its \<^verbatim>\<open>text\<close>.
  \<open>findall env text\<close> is what
  \<^verbatim>\<open>BeautifulSoup(text, 'lxml').findall('div', {'class': 'item__title'})\<close> does: it
  raises, or it returns the list of elements found. Both are fixed during a run, so the
  same text gives the same elements each time it is parsed.
\<close>

type_synonym tag = string

record env =
  requests_get :: "event list \<Rightarrow> request \<Rightarrow> error + string"
  findall :: "string \<Rightarrow> error + tag list"

definition make_request ::
  "env \<Rightarrow> event list \<Rightarrow> string \<Rightarrow> Config \<Rightarrow> event \<times> (error + string)" where
  "make_request env history u config =
     (let req = \<lparr>url = u,
                 headers_arg = get_headers config,
                 timeout_arg = get_timeout config,
                 verify_arg = get_verify_certificate config\<rparr>
      in (HttpGet req, requests_get env history req))"

text \<open>
  A \<^verbatim>\<open>Crawler\<close> object has the attributes \<open>urls\<close> and \<open>config\<close>. A run adds two
  logs that the program does not hold: the events so far, and every value that
  \<^verbatim>\<open>_extract_url\<close> has returned, in order.
\<close>

record Crawler =
  urls :: "string list"
  config :: Config

record run = Crawler +
  events :: "event list"
  extracted :: "string list"

definition Crawler_init :: "Config \<Rightarrow> run" where
  "Crawler_init cfg = \<lparr>urls = [], config = cfg, events = [], extracted = []\<rparr>"

definition get_search_urls :: "run \<Rightarrow> string list" where
  "get_search_urls self = get_seed_urls (config self)"

text \<open>The site of line 227, as the bytes of its UTF-8 encoding.\<close>

definition base_link :: string where
  "base_link = ''https://'' @
     [CHR 0xD0, CHR 0xBA, CHR 0xD1, CHR 0x80, CHR 0xD0, CHR 0xB0, CHR 0xD0, CHR 0xB9,
      CHR 0x2D, CHR 0xD0, CHR 0xB4, CHR 0xD0, CHR 0xBE, CHR 0xD1, CHR 0x80, CHR 0xD0,
      CHR 0xBE, CHR 0xD0, CHR 0xB3, CHR 0xD0, CHR 0xBE, CHR 0xD0, CHR 0xB1, CHR 0xD1,
      CHR 0x83, CHR 0xD0, CHR 0xB6, CHR 0xD1, CHR 0x81, CHR 0xD0, CHR 0xBA, CHR 0xD0,
      CHR 0xB8, CHR 0xD0, CHR 0xB9, CHR 0x2E, CHR 0xD1, CHR 0x80, CHR 0xD1, CHR 0x84]"

text \<open>
  The loop of lines 229--233 over the elements found. Its first statement evaluates
  \<^verbatim>\<open>'a'['href']\<close>, a string subscripted with a string, which raises
  \<^verbatim>\<open>TypeError\<close> before \<^verbatim>\<open>art.find\<close> is called. Were a value to come back,
  \<^verbatim>\<open>base_link += href\<close> would add what \<^verbatim>\<open>find\<close> returns (an element or
  \<^verbatim>\<open>None\<close>, never a \<^verbatim>\<open>str\<close>) to a string, and raise \<^verbatim>\<open>TypeError\<close> too. So
  the body never reaches its \<^verbatim>\<open>return\<close>, and the loop returns only by falling
  through to line 234 when no element was found.
\<close>

fun extract_loop :: "run \<Rightarrow> string \<Rightarrow> tag list \<Rightarrow> error + string" where
  "extract_loop self link [] = Inr []"
| "extract_loop self link (art # arts) =
     and_then (getitem (JStr ''a'') (KStr ''href'')) (\<lambda>sel. Inl TypeError)"

text \<open>\<^verbatim>\<open>Crawler._extract_url\<close>, on the text of the page that was parsed.\<close>

definition extract_url :: "env \<Rightarrow> run \<Rightarrow> string \<Rightarrow> error + string" where
  "extract_url env self text =
     and_then (findall env text) (\<lambda>articles. extract_loop self base_link articles)"

text \<open>
  How a run stands when it is observed: it has returned, it has raised, or it is still
  running after the number of iterations that were allowed.
\<close>

datatype status = Returned | Raised error | Running

text \<open>
  The \<^verbatim>\<open>while True\<close> of lines 243--246. It holds no \<^verbatim>\<open>break\<close> and no
  \<^verbatim>\<open>return\<close>: an exception is its only way out. \<open>fuel\<close> bounds the iterations
  that are followed.
\<close>

fun while_true :: "nat \<Rightarrow> env \<Rightarrow> string \<Rightarrow> run \<Rightarrow> run \<times> status" where
  "while_true 0 env text self = (self, Running)"
| "while_true (Suc fuel) env text self =
     (case extract_url env self text of
        Inl e \<Rightarrow> (self, Raised e)
      | Inr extracted_url \<Rightarrow>
          while_true fuel env text
            (self\<lparr>urls := (if extracted_url \<notin> set (urls self)
                            then urls self @ [extracted_url] else urls self),
                  extracted := extracted self @ [extracted_url]\<rparr>))"

text \<open>
  The \<^verbatim>\<open>for\<close> of lines 240--246 over the seed URLs that remain. The request comes
  first and the test of the quota second; the loop proceeds to the next seed only when
  the test fails, since the \<^verbatim>\<open>while True\<close> does not end.
\<close>

fun for_seed_urls :: "nat \<Rightarrow> env \<Rightarrow> string list \<Rightarrow> run \<Rightarrow> run \<times> status" where
  "for_seed_urls fuel env [] self = (self, Returned)"
| "for_seed_urls fuel env (seed_url # rest) self =
     (case make_request env (events self) seed_url (config self) of
        (ev, Inl e) \<Rightarrow> (self\<lparr>events := events self @ [ev]\<rparr>, Raised e)
      | (ev, Inr text) \<Rightarrow>
          (let self1 = self\<lparr>events := events self @ [ev]\<rparr> in
           if int (length (urls self1)) < get_num_articles (config self1)
           then while_true fuel env text self1
           else for_seed_urls fuel env rest self1))"

definition find_articles :: "nat \<Rightarrow> env \<Rightarrow> run \<Rightarrow> run \<times> status" where
  "find_articles fuel env self = for_seed_urls fuel env (get_search_urls self) self"

text \<open>The URLs of the requests among the events, oldest first.\<close>

fun requested :: "event list \<Rightarrow> string list" where
  "requested [] = []"
| "requested (HttpGet req # evs) = url req # requested evs"
| "requested (ReadFile p # evs) = requested evs"

text \<open>The elements of a list in the order of their first occurrence.\<close>

definition first_seen :: "'a list \<Rightarrow> 'a list" where
  "first_seen xs = rev (remdups (rev xs))"

section \<open>HTMLParser\<close>

text \<open>
  \<^verbatim>\<open>Article\<close> comes from \<^verbatim>\<open>core_utils\<close>; the module only constructs it, from the
  URL and the identifier. The value of a Python expression that the methods below
  take or return is a \<open>pyval\<close>: \<^verbatim>\<open>None\<close>, a string, a date and time, or an article.
\<close>

record Article =
  article_url :: string
  article_ident :: int

datatype pyval =
    PyNone
  | PyStr string
  | PyDatetime int int int int int int
  | PyArticle Article

record HTMLParser =
  full_url :: string
  article_id :: int
  parser_config :: Config
  article :: Article

definition HTMLParser_init :: "string \<Rightarrow> int \<Rightarrow> Config \<Rightarrow> HTMLParser" where
  "HTMLParser_init u i cfg =
     \<lparr>full_url = u, article_id = i, parser_config = cfg,
      article = \<lparr>article_url = u, article_ident = i\<rparr>\<rparr>"

text \<open>
  \<^verbatim>\<open>unify_date_format\<close> and \<^verbatim>\<open>parse\<close> have a docstring and no statement: each
  returns \<^verbatim>\<open>None\<close>, whatever it is given, requests nothing and changes nothing.
  \<open>parse\<close> returns the object as it is after the call, the events of the call and the
  value.
\<close>

definition unify_date_format :: "HTMLParser \<Rightarrow> pyval \<Rightarrow> pyval" where
  "unify_date_format self date_str = PyNone"

definition parse :: "env \<Rightarrow> HTMLParser \<Rightarrow> HTMLParser \<times> event list \<times> (error + pyval)" where
  "parse env self = (self, [], Inr PyNone)"

section \<open>Inputs of the examples\<close>

text \<open>A configuration source with the seven fields, every one of the right type and in
  range, for a given value of \<open>seed_urls\<close> and of \<open>headers\<close>.\<close>

definition config_json :: "json \<Rightarrow> json \<Rightarrow> json" where
  "config_json seeds hdrs =
     JDict [(''seed_urls'', seeds),
            (''total_articles_to_find_and_parse'', JInt 3),
            (''headers'', hdrs),
            (''encoding'', JStr ''utf-8''),
            (''timeout'', JInt 5),
            (''should_verify_certificate'', JBool True),
            (''headless_mode'', JBool False)]"

text \<open>A \<^verbatim>\<open>Config\<close> object with given seed URLs and number of articles.\<close>

definition example_config :: "string list \<Rightarrow> int \<Rightarrow> Config" where
  "example_config seeds n =
     \<lparr>path_to_config = ''scraper_config.json'',
      self_encoding = ''utf-8'',
      self_headers = [(''User-Agent'', ''Mozilla/5.0'')],
      self_headless_mode = False,
      self_seed_urls = seeds,
      self_timeout = 5,
      self_num_articles = n,
      self_should_varify_certificate = True\<rparr>"

text \<open>A site on which every request is answered and no page holds an element of the
  kind looked for; and a site that cannot be reached.\<close>

definition env_no_links :: env where
  "env_no_links = \<lparr>requests_get = (\<lambda>history req. Inr ''<html><body></body></html>''),
                    findall = (\<lambda>text. Inr [])\<rparr>"

definition env_offline :: env where
  "env_offline = \<lparr>requests_get = (\<lambda>history req. Inl (LibraryError ''ConnectionError'')),
                   findall = (\<lambda>text. Inr [])\<rparr>"

section \<open>Config: validation\<close>

lemma and_then_simps [simp]:
  "and_then (Inl e) f = Inl e"
  "and_then (Inr v) f = f v"
  by (simp_all add: and_then_def)

lemma and_then_Inr: "and_then m f = Inr y \<longleftrightarrow> (\<exists>v. m = Inr v \<and> f v = Inr y)"
  by (cases m) simp_all

text \<open>Whatever the source holds, the checks end in an exception: a source that passes
  lines 88--100 raises at line 102.\<close>

lemma check_config_data_raises: "check_config_data config_data \<noteq> Inr u"
  by (auto simp: check_config_data_def and_then_Inr split: if_splits)

lemma validate_config_content_raises: "snd (validate_config_content fs path) \<noteq> Inr u"
  by (simp add: validate_config_content_def and_then_Inr check_config_data_raises)

lemma Config_init_raises: "snd (Config_init fs new_dto path) \<noteq> Inr c"
  using validate_config_content_raises [of fs path]
  by (auto simp: Config_init_def split: prod.splits sum.splits)

text \<open>The loop over the seed URLs accepts a list of strings exactly when each of them
  holds the literal text.\<close>

lemma check_seed_urls_strings:
  "check_seed_urls (map JStr us) =
     (if list_all (substring ''https?://(www.)?'') us then Inr () else Inl IncorrectSeedURLError)"
  by (induction us) simp_all

text \<open>
  Claim C4. Each of the seven invalid fields makes the load fail with its own error, no
  rule is skipped, and a configuration whose fields are all valid loads. The code does
  otherwise: with a seed URL that passes both the pattern of the specification and the
  test of line 89, and every other field valid, the constructor raises \<^verbatim>\<open>KeyError\<close>;
  with the headers replaced by a string it raises \<^verbatim>\<open>KeyError\<close> again, not
  \<^verbatim>\<open>IncorrectHeadersError\<close>.
\<close>

theorem Config_init_valid_source_KeyError:
  "snd (Config_init
         (\<lambda>p. Inr (config_json (JList [JStr ''https://www.example.com/https?://(www.)?''])
                      (JDict [(''User-Agent'', JStr ''Mozilla/5.0'')])))
         new_dto path) = Inl KeyError \<and>
   snd (Config_init
         (\<lambda>p. Inr (config_json (JList [JStr ''https://www.example.com/https?://(www.)?''])
                      (JStr ''not a mapping'')))
         new_dto path) = Inl KeyError"
  by (simp add: Config_init_def validate_config_content_def check_config_data_def
      config_json_def)

text \<open>
  Claim C5. A seed URL is rejected exactly when it fails the pattern, and
  \<^verbatim>\<open>https://example.com/list\<close> is accepted. The code rejects that URL: it does not
  hold the text \<^verbatim>\<open>https?://(www.)?\<close>.
\<close>

theorem Config_init_rejects_wellformed_seed_url:
  "snd (Config_init
         (\<lambda>p. Inr (config_json (JList [JStr ''https://example.com/list''])
                      (JDict [(''User-Agent'', JStr ''Mozilla/5.0'')])))
         new_dto path) = Inl IncorrectSeedURLError"
  by (simp add: Config_init_def validate_config_content_def check_config_data_def
      config_json_def)

text \<open>
  Claim C6. For every configuration source, valid or not, and whatever the file system
  and the constructor of the DTO do, the events of \<^verbatim>\<open>Config.__init__\<close> are reads of
  the configuration source and nothing else: no HTTP request is among them.
\<close>

theorem Config_init_only_reads_source:
  "set (fst (Config_init fs new_dto path)) \<subseteq> {ReadFile path} \<and>
   HttpGet req \<notin> set (fst (Config_init fs new_dto path))"
  by (auto simp: Config_init_def validate_config_content_def extract_config_content_def
      split: prod.splits sum.splits)

text \<open>
  Claim C10. On the object that lines 58--67 build from any DTO,
  \<^verbatim>\<open>get_headless_mode\<close> returns \<^verbatim>\<open>None\<close> whatever flag was stored, and every other
  accessor returns the field of the DTO that was stored for it.
\<close>

theorem Config_accessors:
  "get_headless_mode (store_config path dto) = None \<and>
   get_seed_urls (store_config path dto) = seed_urls dto \<and>
   get_num_articles (store_config path dto) = num_articles dto \<and>
   get_headers (store_config path dto) = headers dto \<and>
   get_encoding (store_config path dto) = encoding dto \<and>
   get_timeout (store_config path dto) = timeout dto \<and>
   get_verify_certificate (store_config path dto) = should_verify_certificate dto"
  by (simp add: store_config_def get_headless_mode_def get_seed_urls_def
      get_num_articles_def get_headers_def get_encoding_def get_timeout_def
      get_verify_certificate_def)

section \<open>Crawler: what one page can add\<close>

text \<open>\<^verbatim>\<open>_extract_url\<close> returns the empty string or raises; it returns the empty string
  when no element was found.\<close>

lemma extract_url_empty: "extract_url env self text = Inr u \<Longrightarrow> u = []"
  unfolding extract_url_def
  by (cases "findall env text"; simp) (rename_tac arts, case_tac arts; simp)

lemma extract_url_no_links: "findall env text = Inr [] \<Longrightarrow> extract_url env self text = Inr []"
  by (simp add: extract_url_def)

lemma set_first_seen [simp]: "set (first_seen xs) = set xs"
  by (simp add: first_seen_def)

lemma distinct_first_seen [simp]: "distinct (first_seen xs)"
  by (simp add: first_seen_def)

lemma first_seen_snoc:
  "first_seen (xs @ [x]) = (if x \<in> set xs then first_seen xs else first_seen xs @ [x])"
  by (simp add: first_seen_def)

lemma requested_append [simp]: "requested (evs @ evs') = requested evs @ requested evs'"
  by (induction evs rule: requested.induct) simp_all

text \<open>The inner loop touches neither the configuration nor the events.\<close>

lemma while_true_config [simp]: "config (fst (while_true fuel env text self)) = config self"
  by (induction fuel arbitrary: self) (simp_all split: sum.splits)

lemma while_true_events [simp]: "events (fst (while_true fuel env text self)) = events self"
  by (induction fuel arbitrary: self) (simp_all split: sum.splits)

text \<open>The test of line 245 keeps \<open>urls\<close> the first occurrences of what was extracted.\<close>

lemma while_true_first_seen:
  "urls self = first_seen (extracted self) \<Longrightarrow>
   urls (fst (while_true fuel env text self)) =
     first_seen (extracted (fst (while_true fuel env text self)))"
proof (induction fuel arbitrary: self)
  case 0
  then show ?case by simp
next
  case (Suc fuel)
  show ?case
  proof (cases "extract_url env self text")
    case (Inl e)
    with Suc.prems show ?thesis by simp
  next
    case (Inr u)
    let ?next = "self\<lparr>urls := (if u \<notin> set (urls self) then urls self @ [u] else urls self),
                       extracted := extracted self @ [u]\<rparr>"
    have "urls ?next = first_seen (extracted ?next)"
      using Suc.prems by (simp add: first_seen_snoc)
    from Suc.IH [OF this] Inr show ?thesis by simp
  qed
qed

text \<open>Once the empty string is in \<open>urls\<close>, the inner loop adds nothing; so it adds at
  most one element in all.\<close>

lemma while_true_seen_before:
  "[] \<in> set (urls self) \<Longrightarrow> urls (fst (while_true fuel env text self)) = urls self"
proof (induction fuel arbitrary: self)
  case 0
  then show ?case by simp
next
  case (Suc fuel)
  show ?case
  proof (cases "extract_url env self text")
    case (Inl e)
    then show ?thesis by simp
  next
    case (Inr u)
    then have "u = []" by (rule extract_url_empty)
    with Suc.prems Suc.IH [of "self\<lparr>extracted := extracted self @ [[]]\<rparr>"] Inr
    show ?thesis by simp
  qed
qed

lemma while_true_length:
  "length (urls (fst (while_true fuel env text self))) \<le> Suc (length (urls self))"
proof (cases fuel)
  case 0
  then show ?thesis by simp
next
  case (Suc k)
  show ?thesis
  proof (cases "extract_url env self text")
    case (Inl e)
    with Suc show ?thesis by simp
  next
    case (Inr u)
    then have u: "u = []" by (rule extract_url_empty)
    show ?thesis
    proof (cases "[] \<in> set (urls self)")
      case True
      then show ?thesis by (simp add: while_true_seen_before)
    next
      case False
      let ?next = "self\<lparr>urls := urls self @ [[]], extracted := extracted self @ [[]]\<rparr>"
      have "urls (fst (while_true k env text ?next)) = urls ?next"
        by (rule while_true_seen_before) simp
      with Suc Inr u False show ?thesis by simp
    qed
  qed
qed

text \<open>The inner loop never hands control back; on a page without elements it does not
  raise either, so it is running after any number of iterations.\<close>

lemma while_true_not_Returned: "snd (while_true fuel env text self) \<noteq> Returned"
  by (induction fuel arbitrary: self) (simp_all split: sum.splits)

lemma while_true_no_links:
  "findall env text = Inr [] \<Longrightarrow> snd (while_true fuel env text self) = Running"
  by (induction fuel arbitrary: self) (simp_all add: extract_url_no_links)

section \<open>Crawler: find_articles\<close>

lemma for_seed_urls_invariant:
  "urls self = first_seen (extracted self) \<Longrightarrow>
   int (length (urls self)) \<le> get_num_articles (config self) \<Longrightarrow>
   urls (fst (for_seed_urls fuel env seeds self)) =
     first_seen (extracted (fst (for_seed_urls fuel env seeds self))) \<and>
   int (length (urls (fst (for_seed_urls fuel env seeds self)))) \<le> get_num_articles (config self)"
proof (induction seeds arbitrary: self)
  case Nil
  then show ?case by simp
next
  case (Cons seed_url rest)
  obtain ev res where mr: "make_request env (events self) seed_url (config self) = (ev, res)"
    by (cases "make_request env (events self) seed_url (config self)")
  show ?case
  proof (cases res)
    case (Inl e)
    with mr Cons.prems show ?thesis by auto
  next
    case (Inr body)
    let ?self1 = "self\<lparr>events := events self @ [ev]\<rparr>"
    have inv1: "urls ?self1 = first_seen (extracted ?self1)"
      and len1: "int (length (urls ?self1)) \<le> get_num_articles (config ?self1)"
      using Cons.prems by simp_all
    show ?thesis
    proof (cases "int (length (urls self)) < get_num_articles (config self)")
      case True
      have "length (urls (fst (while_true fuel env body ?self1))) \<le> Suc (length (urls ?self1))"
        by (rule while_true_length)
      with True
      have "int (length (urls (fst (while_true fuel env body ?self1))))
              \<le> get_num_articles (config self)"
        by simp
      with while_true_first_seen [OF inv1, of fuel env body] mr Inr True
      show ?thesis by auto
    next
      case False
      note IH = Cons.IH [OF inv1 len1]
      from mr Inr False
      have "for_seed_urls fuel env (seed_url # rest) self = for_seed_urls fuel env rest ?self1"
        by simp
      with IH show ?thesis by auto
    qed
  qed
qed

text \<open>
  Claim C1. For every configuration with a target that is not negative, whatever the
  site answers, and at whatever point the run of \<^verbatim>\<open>find_articles\<close> on a new crawler
  is observed (so in particular once it has completed): the URLs held have no
  duplicates, are no more than the target, and are the values extracted so far in the
  order in which each was first seen.
\<close>

theorem find_articles_urls_distinct_bounded:
  assumes "0 \<le> get_num_articles cfg"
  shows "distinct (urls (fst (find_articles fuel env (Crawler_init cfg)))) \<and>
         int (length (urls (fst (find_articles fuel env (Crawler_init cfg)))))
           \<le> get_num_articles cfg \<and>
         urls (fst (find_articles fuel env (Crawler_init cfg))) =
           first_seen (extracted (fst (find_articles fuel env (Crawler_init cfg))))"
proof -
  let ?self = "Crawler_init cfg"
  let ?r = "fst (find_articles fuel env ?self)"
  have "urls ?self = first_seen (extracted ?self)"
    by (simp add: Crawler_init_def first_seen_def)
  moreover have "int (length (urls ?self)) \<le> get_num_articles (config ?self)"
    using assms by (simp add: Crawler_init_def)
  ultimately have inv:
    "urls (fst (for_seed_urls fuel env (get_search_urls ?self) ?self)) =
       first_seen (extracted (fst (for_seed_urls fuel env (get_search_urls ?self) ?self))) \<and>
     int (length (urls (fst (for_seed_urls fuel env (get_search_urls ?self) ?self))))
       \<le> get_num_articles (config ?self)"
    by (rule for_seed_urls_invariant)
  from inv have seen: "urls ?r = first_seen (extracted ?r)"
    and len: "int (length (urls ?r)) \<le> get_num_articles (config ?self)"
    unfolding find_articles_def by (rule conjunct1, rule conjunct2)
  have "distinct (first_seen (extracted ?r))"
    by (rule distinct_first_seen)
  then have "distinct (urls ?r)"
    by (simp only: seen)
  moreover have "config ?self = cfg"
    by (simp add: Crawler_init_def)
  ultimately show ?thesis
    using seen len by simp
qed

text \<open>The theorem at a target of three and one seed page without elements, observed
  after four iterations: the crawler holds the empty string, once.\<close>

theorem find_articles_urls_distinct_bounded_witness:
  "0 \<le> get_num_articles (example_config [''https://example.com/list''] 3) \<and>
   distinct (urls (fst (find_articles 4 env_no_links
               (Crawler_init (example_config [''https://example.com/list''] 3))))) \<and>
   int (length (urls (fst (find_articles 4 env_no_links
               (Crawler_init (example_config [''https://example.com/list''] 3))))))
     \<le> get_num_articles (example_config [''https://example.com/list''] 3) \<and>
   urls (fst (find_articles 4 env_no_links
               (Crawler_init (example_config [''https://example.com/list''] 3))))
     = first_seen (extracted (fst (find_articles 4 env_no_links
               (Crawler_init (example_config [''https://example.com/list''] 3))))) \<and>
   urls (fst (find_articles 4 env_no_links
               (Crawler_init (example_config [''https://example.com/list''] 3)))) = [[]]"
proof -
  have target: "0 \<le> get_num_articles (example_config [''https://example.com/list''] 3)"
    by (simp add: get_num_articles_def example_config_def)
  have held: "urls (fst (find_articles 4 env_no_links
               (Crawler_init (example_config [''https://example.com/list''] 3)))) = [[]]"
    by (simp add: find_articles_def get_search_urls_def get_seed_urls_def
        get_num_articles_def Crawler_init_def example_config_def env_no_links_def
        make_request_def extract_url_def eval_nat_numeral)
  from find_articles_urls_distinct_bounded [OF target, of 4 env_no_links] target held
  show ?thesis by blast
qed

text \<open>
  Claim C2. A seed page is processed in one bounded pass, and a page without candidate
  links is a no-op that never loops. The code does otherwise: on a new crawler with a
  target of three and one seed page without elements, \<^verbatim>\<open>find_articles\<close> is still
  running after any number of iterations of its \<^verbatim>\<open>while True\<close>.
\<close>

theorem find_articles_no_links_never_returns:
  "snd (find_articles fuel env_no_links
         (Crawler_init (example_config [''https://example.com/list''] 3))) = Running"
  by (simp add: find_articles_def get_search_urls_def get_seed_urls_def get_num_articles_def
      Crawler_init_def example_config_def make_request_def while_true_no_links
      env_no_links_def)

text \<open>From a state below the target, an iteration of the \<^verbatim>\<open>for\<close> loop issues its
  request and the run issues no other afterwards: either the request raises, or the
  \<^verbatim>\<open>while True\<close> is entered, which requests nothing and does not end.\<close>

lemma for_seed_urls_below_quota:
  assumes "int (length (urls self)) < get_num_articles (config self)"
  shows "requested (events (fst (for_seed_urls fuel env (seed_url # rest) self))) =
           requested (events self) @ [seed_url]"
proof (cases "requests_get env (events self)
                \<lparr>url = seed_url, headers_arg = get_headers (config self),
                 timeout_arg = get_timeout (config self),
                 verify_arg = get_verify_certificate (config self)\<rparr>")
  case (Inl e)
  then show ?thesis by (simp add: make_request_def)
next
  case (Inr body)
  with assms show ?thesis by (simp add: make_request_def)
qed

text \<open>
  Claim C3. On a new crawler with a target of at least one, whatever the site answers
  and however long the run is observed, the requests of \<^verbatim>\<open>find_articles\<close> are the
  one for the first seed URL and no other. That request is issued while the crawler
  holds no URL; so once the URLs held have reached the target, no request is issued
  for any seed URL that remains.
\<close>

theorem find_articles_no_request_after_quota:
  assumes "1 \<le> get_num_articles cfg"
  shows "requested (events (fst (find_articles fuel env (Crawler_init cfg)))) =
           take 1 (get_seed_urls cfg)"
proof (cases "get_seed_urls cfg")
  case Nil
  then show ?thesis
    by (simp add: find_articles_def get_search_urls_def Crawler_init_def)
next
  case (Cons seed_url rest)
  have "int (length (urls (Crawler_init cfg))) < get_num_articles (config (Crawler_init cfg))"
    using assms by (simp add: Crawler_init_def)
  from for_seed_urls_below_quota [OF this, of fuel env seed_url rest] Cons
  show ?thesis
    by (simp add: find_articles_def get_search_urls_def Crawler_init_def)
qed

text \<open>The theorem at a target of one and two seed pages, on a site whose pages hold no
  element, observed after three iterations: the crawler holds one value, which is the
  target, and the second seed page has not been requested.\<close>

theorem find_articles_no_request_after_quota_witness:
  "1 \<le> get_num_articles
          (example_config [''https://example.com/list1'', ''https://example.com/list2''] 1) \<and>
   get_num_articles
     (example_config [''https://example.com/list1'', ''https://example.com/list2''] 1) =
   int (length (urls (fst (find_articles 3 env_no_links
     (Crawler_init
       (example_config [''https://example.com/list1'', ''https://example.com/list2''] 1)))))) \<and>
   requested (events (fst (find_articles 3 env_no_links
     (Crawler_init
       (example_config [''https://example.com/list1'', ''https://example.com/list2''] 1))))) =
   [''https://example.com/list1'']"
proof -
  let ?cfg = "example_config [''https://example.com/list1'', ''https://example.com/list2''] 1"
  have target: "1 \<le> get_num_articles ?cfg"
    by (simp add: get_num_articles_def example_config_def)
  have seeds: "get_seed_urls ?cfg = [''https://example.com/list1'', ''https://example.com/list2'']"
    by (simp add: get_seed_urls_def example_config_def)
  have held: "urls (fst (find_articles 3 env_no_links (Crawler_init ?cfg))) = [[]]"
    by (simp add: find_articles_def get_search_urls_def get_seed_urls_def
        get_num_articles_def Crawler_init_def example_config_def env_no_links_def
        make_request_def extract_url_def eval_nat_numeral)
  have quota: "get_num_articles ?cfg =
      int (length (urls (fst (find_articles 3 env_no_links (Crawler_init ?cfg)))))"
    unfolding held by (simp add: get_num_articles_def example_config_def)
  from find_articles_no_request_after_quota [OF target, of 3 env_no_links] seeds
  have "requested (events (fst (find_articles 3 env_no_links (Crawler_init ?cfg)))) =
          [''https://example.com/list1'']"
    by simp
  with target quota show ?thesis by blast
qed

text \<open>
  Claim C7, as stated: a seed page whose fetch fails is skipped without an exception,
  and the next seed is visited. It fails on a new crawler with two seed pages and a
  site that cannot be reached: the run ends with the exception of the first request,
  and the second seed is never requested.
\<close>

theorem find_articles_fetch_failure_raises:
  "find_articles 3 env_offline
     (Crawler_init (example_config [''https://example.com/list1'', ''https://example.com/list2''] 3)) =
   (\<lparr>urls = [],
     config = example_config [''https://example.com/list1'', ''https://example.com/list2''] 3,
     events = [HttpGet \<lparr>url = ''https://example.com/list1'',
                        headers_arg = [(''User-Agent'', ''Mozilla/5.0'')],
                        timeout_arg = 5, verify_arg = True\<rparr>],
     extracted = []\<rparr>,
    Raised (LibraryError ''ConnectionError''))"
  by (simp add: find_articles_def get_search_urls_def get_seed_urls_def get_num_articles_def
      Crawler_init_def example_config_def env_offline_def make_request_def
      get_headers_def get_timeout_def get_verify_certificate_def)

text \<open>
  Claim C7, amended. \<^verbatim>\<open>find_articles\<close> is the \<^verbatim>\<open>for\<close> loop over the configured
  seed URLs. At any iteration of it, whatever the crawler holds and whichever seeds
  remain: if \<^verbatim>\<open>requests.get\<close> raises for the seed of that iteration, the loop ends
  with the same exception; that seed adds no URL, its request is the last one, and no
  later seed is requested.
\<close>

theorem find_articles_fetch_failure_propagates:
  assumes "requests_get env (events self)
             \<lparr>url = seed_url, headers_arg = get_headers (config self),
              timeout_arg = get_timeout (config self),
              verify_arg = get_verify_certificate (config self)\<rparr> = Inl e"
  shows "snd (for_seed_urls fuel env (seed_url # rest) self) = Raised e \<and>
         urls (fst (for_seed_urls fuel env (seed_url # rest) self)) = urls self \<and>
         requested (events (fst (for_seed_urls fuel env (seed_url # rest) self))) =
           requested (events self) @ [seed_url]"
  using assms by (simp add: make_request_def)

text \<open>The theorem at the first seed of a new crawler with two seeds, on a site that
  cannot be reached.\<close>

theorem find_articles_fetch_failure_propagates_witness:
  "requests_get env_offline
     (events (Crawler_init (example_config [''https://example.com/list1'', ''https://example.com/list2''] 3)))
     \<lparr>url = ''https://example.com/list1'',
      headers_arg = [(''User-Agent'', ''Mozilla/5.0'')],
      timeout_arg = 5, verify_arg = True\<rparr> = Inl (LibraryError ''ConnectionError'') \<and>
   snd (find_articles 3 env_offline
         (Crawler_init (example_config [''https://example.com/list1'', ''https://example.com/list2''] 3)))
     = Raised (LibraryError ''ConnectionError'') \<and>
   urls (fst (find_articles 3 env_offline
         (Crawler_init (example_config [''https://example.com/list1'', ''https://example.com/list2''] 3))))
     = [] \<and>
   requested (events (fst (find_articles 3 env_offline
         (Crawler_init (example_config [''https://example.com/list1'', ''https://example.com/list2''] 3)))))
     = [''https://example.com/list1'']"
proof -
  let ?cfg = "example_config [''https://example.com/list1'', ''https://example.com/list2''] 3"
  let ?self = "Crawler_init ?cfg"
  have seeds: "get_search_urls ?self = [''https://example.com/list1'', ''https://example.com/list2'']"
    by (simp add: get_search_urls_def get_seed_urls_def Crawler_init_def example_config_def)
  have args: "get_headers (config ?self) = [(''User-Agent'', ''Mozilla/5.0'')]"
    "get_timeout (config ?self) = 5" "get_verify_certificate (config ?self) = True"
    by (simp_all add: get_headers_def get_timeout_def get_verify_certificate_def
        Crawler_init_def example_config_def)
  have down: "requests_get env_offline (events ?self)
           \<lparr>url = ''https://example.com/list1'', headers_arg = get_headers (config ?self),
            timeout_arg = get_timeout (config ?self),
            verify_arg = get_verify_certificate (config ?self)\<rparr>
         = Inl (LibraryError ''ConnectionError'')"
    by (simp add: env_offline_def)
  have start: "urls ?self = []" "requested (events ?self) = []"
    by (simp_all add: Crawler_init_def)
  from find_articles_fetch_failure_propagates
         [OF down, of 3 "[''https://example.com/list2'']"] down
  show ?thesis
    unfolding find_articles_def seeds args start by simp
qed

section \<open>HTMLParser: the methods without a body\<close>

text \<open>
  Claim C8. A page without a content container yields an article record with an empty
  body, and \<^verbatim>\<open>parse\<close> fails only when the fetch or the markup fails. The code does
  otherwise: for every parser, \<^verbatim>\<open>parse\<close> returns \<^verbatim>\<open>None\<close>, not an article, requests
  nothing, and leaves the parser as the constructor built it.
\<close>

theorem parse_returns_None:
  "parse env (HTMLParser_init u i cfg) = (HTMLParser_init u i cfg, [], Inr PyNone)"
  by (simp add: parse_def)

text \<open>
  Claim C9. A date string is normalised to a canonical representation, and normalising
  that result again leaves it unchanged. The code does otherwise: for every parser and
  every argument, a date string included, \<^verbatim>\<open>unify_date_format\<close> returns \<^verbatim>\<open>None\<close>;
  no date is produced that could be fed back.
\<close>

theorem unify_date_format_returns_None:
  "unify_date_format self date_str = PyNone \<and>
   unify_date_format (HTMLParser_init u i cfg) (PyStr ''2024-05-01 10:30:00'') = PyNone"
  by (simp add: unify_date_format_def)

end
